theory Spec2Isabelle
  imports Complex_Main "HOL-Library.Word"
begin

section \<open>Tables\<close>

text \<open>
  The program keeps its data in a pandas DataFrame. A cell is a missing object value
  (\<open>None\<close> in an object column), the float \<open>NaN\<close> (the missing value of a float64 column,
  and the fill value of an unmatched left join), a 64-bit signed integer (int64 column),
  a finite float (float64 column, taken as the rational it denotes) or a string.
\<close>

datatype cell = PyNone | NaN | IntV "64 word" | FloatV rat | Str string

text \<open>
  A frame is its column labels, in order, and its rows; every row of a frame built by
  pandas has one cell per label. Labels may repeat.
\<close>

record dataframe =
  columns :: "string list"
  rows :: "cell list list"


text \<open>The cells of one row that stand under label \<open>c\<close>, and that for every row of a frame.\<close>

definition row_cells :: "string \<Rightarrow> string list \<Rightarrow> cell list \<Rightarrow> cell list" where
  "row_cells c cols r = map snd (filter (\<lambda>p. fst p = c) (zip cols r))"

definition cells_under :: "string \<Rightarrow> dataframe \<Rightarrow> cell list list" where
  "cells_under c d = map (row_cells c (columns d)) (rows d)"

section \<open>Exceptions\<close>

datatype error =
    ValueError string
  | KeyError string
  | TypeError
  | AttributeError
  | IndexError
  | EmptyDataError
  | MergeError
  | ImportError
  | UnboundLocalError
  | OtherError string

section \<open>The processor object\<close>

text \<open>
  \<open>FieldDataProcessor.__init__\<close> copies the configuration into attributes and sets
  \<open>df\<close> and \<open>engine\<close> to \<open>None\<close>. \<open>columns_to_rename\<close> is a dict whose item order is
  read, so it is an association list; \<open>values_to_rename\<close> is only looked up. An engine is
  identified by the connection string it was created from.
\<close>

record config =
  cfg_db_path :: string
  cfg_sql_query :: string
  cfg_columns_to_rename :: "(string \<times> string) list"
  cfg_values_to_rename :: "string \<rightharpoonup> string"
  cfg_weather_mapping_csv :: string

record field_data_processor =
  db_path :: string
  sql_query :: string
  columns_to_rename :: "(string \<times> string) list"
  values_to_rename :: "string \<rightharpoonup> string"
  weather_map_data :: string
  df :: "dataframe option"
  engine :: "string option"

definition init :: "config \<Rightarrow> field_data_processor" where
  "init config_params =
     \<lparr> db_path = cfg_db_path config_params,
       sql_query = cfg_sql_query config_params,
       columns_to_rename = cfg_columns_to_rename config_params,
       values_to_rename = cfg_values_to_rename config_params,
       weather_map_data = cfg_weather_mapping_csv config_params,
       df = None,
       engine = None \<rparr>"

text \<open>
  A method either returns normally (\<open>None\<close>) or raises (\<open>Some e\<close>); in both cases the
  object is left as the method's assignments made it.
\<close>

type_synonym operation = "field_data_processor \<Rightarrow> error option \<times> field_data_processor"

definition and_then :: "operation \<Rightarrow> operation \<Rightarrow> operation" where
  "and_then f g self =
     (case f self of
        (None, self') \<Rightarrow> g self'
      | (Some e, self') \<Rightarrow> (Some e, self'))"

section \<open>rename_columns\<close>

text \<open>
  \<open>while temp_name in self.df.columns: temp_name += "_"\<close>
\<close>

function temp_name_loop :: "string list \<Rightarrow> string \<Rightarrow> string" where
  "temp_name_loop cols temp_name =
     (if temp_name \<in> set cols then temp_name_loop cols (temp_name @ ''_'') else temp_name)"
  by pat_completeness auto
termination
proof (relation "measure (\<lambda>(cols, t). length (filter (\<lambda>c. length t \<le> length c) cols))")
  show "wf (measure (\<lambda>(cols, t). length (filter (\<lambda>c. length t \<le> length c) cols)))"
    by simp
next
  fix cols :: "string list" and temp_name :: string
  assume mem: "temp_name \<in> set cols"
  let ?P = "\<lambda>c. length temp_name \<le> length c"
  let ?Q = "\<lambda>c. length (temp_name @ ''_'') \<le> length c"
  have sub: "filter ?Q cols = filter ?Q (filter ?P cols)"
    by (simp add: conj_commute cong: conj_cong) (rule filter_cong, auto)
  have "temp_name \<in> set (filter ?P cols)"
    using mem by simp
  moreover have "\<not> ?Q temp_name"
    by simp
  ultimately have "length (filter ?Q (filter ?P cols)) < length (filter ?P cols)"
    by (rule length_filter_less)
  with sub show "((cols, temp_name @ ''_''), (cols, temp_name))
      \<in> measure (\<lambda>(cols, t). length (filter (\<lambda>c. length t \<le> length c) cols))"
    by simp
qed

declare temp_name_loop.simps [simp del]

text \<open>
  \<open>DataFrame.rename(columns=mapper)\<close> with a dict: a label that is a key is replaced by
  its value, any other label is kept, and a key that labels no column is ignored
  (\<open>errors="ignore"\<close> is the default). The result is a new frame with the same cells.
\<close>

definition df_rename :: "(string \<rightharpoonup> string) \<Rightarrow> dataframe \<Rightarrow> dataframe" where
  "df_rename mapper d =
     d\<lparr>columns := map (\<lambda>c. case mapper c of Some c' \<Rightarrow> c' | None \<Rightarrow> c) (columns d)\<rparr>"

definition rename_columns :: operation where
  "rename_columns self =
     (case columns_to_rename self of
        [] \<Rightarrow> (Some IndexError, self)
      | (column1, column2) # _ \<Rightarrow>
          (case df self of
             None \<Rightarrow> (Some AttributeError, self)
           | Some d \<Rightarrow>
               let temp_name = temp_name_loop (columns d) ''__temp_name_for_swap__'';
                   d1 = df_rename [column1 \<mapsto> temp_name, column2 \<mapsto> column1] d;
                   d2 = df_rename [temp_name \<mapsto> column2] d1
               in (None, self\<lparr>df := Some d2\<rparr>)))"

text \<open>The exchange of two labels.\<close>

definition swap_label :: "string \<Rightarrow> string \<Rightarrow> string \<Rightarrow> string" where
  "swap_label a b c = (if c = a then b else if c = b then a else c)"

section \<open>apply_corrections\<close>

text \<open>
  \<open>Series.abs()\<close> is NumPy's absolute value, element by element. On an int64 column
  it is computed in 64 bits, so the least integer is its own absolute value; on a
  float64 column \<open>NaN\<close> stays \<open>NaN\<close>; on an object column Python's \<open>abs\<close> raises
  \<open>TypeError\<close> for a string and for \<open>None\<close>.
\<close>

definition int64_abs :: "64 word \<Rightarrow> 64 word" where
  "int64_abs w = (if sint w < 0 then - w else w)"

fun is_numeric :: "cell \<Rightarrow> bool" where
  "is_numeric NaN = True"
| "is_numeric (IntV w) = True"
| "is_numeric (FloatV q) = True"
| "is_numeric PyNone = False"
| "is_numeric (Str s) = False"

fun abs_val :: "cell \<Rightarrow> cell" where
  "abs_val (IntV w) = IntV (int64_abs w)"
| "abs_val (FloatV q) = FloatV \<bar>q\<bar>"
| "abs_val v = v"

text \<open>
  \<open>lambda crop: self.values_to_rename.get(crop, crop)\<close>. The keys of the map are
  strings, so a cell that is not a string is never a key.
\<close>

fun get_or_self :: "(string \<rightharpoonup> string) \<Rightarrow> cell \<Rightarrow> cell" where
  "get_or_self m (Str s) = (case m s of Some s' \<Rightarrow> Str s' | None \<Rightarrow> Str s)"
| "get_or_self m v = v"

text \<open>
  \<open>df[c] = f(df[c])\<close> for an element-wise \<open>f\<close>: the cells under label \<open>c\<close> are
  replaced in place, all other cells stay.
\<close>

fun map_under :: "(cell \<Rightarrow> cell) \<Rightarrow> string \<Rightarrow> string list \<Rightarrow> cell list \<Rightarrow> cell list" where
  "map_under f c (l # ls) (v # vs) = (if l = c then f v else v) # map_under f c ls vs"
| "map_under f c [] vs = vs"
| "map_under f c ls [] = []"

definition map_column :: "(cell \<Rightarrow> cell) \<Rightarrow> string \<Rightarrow> dataframe \<Rightarrow> dataframe" where
  "map_column f c d = d\<lparr>rows := map (map_under f c (columns d)) (rows d)\<rparr>"

text \<open>
  The method is two assignments. \<open>self.df[abs_column]\<close> raises \<open>KeyError\<close> for a label
  the frame does not have, and subscripting \<open>None\<close> raises \<open>TypeError\<close>. The first
  assignment has taken place when the second statement raises. A label that occurs more
  than once selects a sub-frame, whose \<open>apply\<close> hands whole columns to the lambda, and
  \<open>dict.get\<close> raises \<open>TypeError\<close> on such an unhashable argument.
\<close>

definition apply_corrections :: "string \<Rightarrow> string \<Rightarrow> operation" where
  "apply_corrections column_name abs_column self =
     (case df self of
        None \<Rightarrow> (Some TypeError, self)
      | Some d \<Rightarrow>
          if abs_column \<notin> set (columns d) then (Some (KeyError abs_column), self)
          else if \<not> list_all (list_all is_numeric) (cells_under abs_column d)
            then (Some TypeError, self)
          else
            let d1 = map_column abs_val abs_column d;
                self1 = self\<lparr>df := Some d1\<rparr>
            in if column_name \<notin> set (columns d1) then (Some (KeyError column_name), self1)
               else if 1 < count_list (columns d1) column_name then (Some TypeError, self1)
               else (None, self1\<lparr>df :=
                      Some (map_column (get_or_self (values_to_rename self)) column_name d1)\<rparr>))"

text \<open>A value that compares \<open>>= 0\<close>; a missing value does not.\<close>

fun cell_nonneg :: "cell \<Rightarrow> bool" where
  "cell_nonneg (IntV w) = (0 \<le> sint w)"
| "cell_nonneg (FloatV q) = (0 \<le> q)"
| "cell_nonneg v = False"

text \<open>What the sign correction does to one cell of a numeric column.\<close>

definition sign_corrected :: "cell \<Rightarrow> cell \<Rightarrow> bool" where
  "sign_corrected v v' \<longleftrightarrow>
     (v = NaN \<longrightarrow> v' = NaN) \<and>
     (v = IntV (- (2 ^ 63)) \<longrightarrow> v' = v) \<and>
     (v \<noteq> NaN \<and> v \<noteq> IntV (- (2 ^ 63)) \<longrightarrow> cell_nonneg v') \<and>
     (cell_nonneg v \<longrightarrow> v' = v)"

section \<open>The collaborators\<close>

text \<open>
  What the database and the network answer is outside the program:
  \<open>create_engine w p\<close> is the outcome of creating an engine for connection string \<open>p\<close>
  and opening a test connection, \<open>read_sql_query w p q\<close> the outcome of connecting and
  running query \<open>q\<close>, \<open>url_body w u\<close> the body served at \<open>u\<close>, and \<open>parse_csv w\<close> what
  the CSV parser makes of a body that is not empty.
\<close>

record world =
  create_engine :: "string \<Rightarrow> error option"
  read_sql_query :: "string \<Rightarrow> string \<Rightarrow> error + dataframe"
  url_body :: "string \<Rightarrow> error + string"
  parse_csv :: "string \<Rightarrow> error + dataframe"

text \<open>
  \<open>create_db_engine\<close>: the handler for \<open>ImportError\<close> raises the name \<open>e\<close>, which that
  handler does not bind; every other exception is raised again as it is.
\<close>

definition create_db_engine :: "world \<Rightarrow> string \<Rightarrow> error + string" where
  "create_db_engine w p =
     (case create_engine w p of
        None \<Rightarrow> Inr p
      | Some ImportError \<Rightarrow> Inl UnboundLocalError
      | Some e \<Rightarrow> Inl e)"

text \<open>\<open>DataFrame.empty\<close>: one of the two axes has length 0.\<close>

definition df_empty :: "dataframe \<Rightarrow> bool" where
  "df_empty d \<longleftrightarrow> rows d = [] \<or> columns d = []"

definition query_data :: "world \<Rightarrow> string \<Rightarrow> string \<Rightarrow> error + dataframe" where
  "query_data w eng q =
     (case read_sql_query w eng q of
        Inl e \<Rightarrow> Inl e
      | Inr d \<Rightarrow>
          if df_empty d then Inl (ValueError ''The query returned an empty DataFrame.'')
          else Inr d)"

text \<open>\<open>pd.read_csv\<close> raises \<open>EmptyDataError\<close> when there is nothing to parse.\<close>

definition pd_read_csv :: "world \<Rightarrow> string \<Rightarrow> error + dataframe" where
  "pd_read_csv w u =
     (case url_body w u of
        Inl e \<Rightarrow> Inl e
      | Inr body \<Rightarrow> if body = [] then Inl EmptyDataError else parse_csv w body)"

definition read_from_web_CSV :: "world \<Rightarrow> string \<Rightarrow> error + dataframe" where
  "read_from_web_CSV w u =
     (case pd_read_csv w u of
        Inr d \<Rightarrow> Inr d
      | Inl EmptyDataError \<Rightarrow> Inl EmptyDataError
      | Inl e \<Rightarrow> Inl e)"

section \<open>ingest_sql_data\<close>

definition ingest_sql_data :: "world \<Rightarrow> operation" where
  "ingest_sql_data w self =
     (case create_db_engine w (db_path self) of
        Inl e \<Rightarrow> (Some e, self)
      | Inr eng \<Rightarrow>
          let self1 = self\<lparr>engine := Some eng\<rparr>
          in (case query_data w eng (sql_query self1) of
                Inl e \<Rightarrow> (Some e, self1)
              | Inr d \<Rightarrow> (None, self1\<lparr>df := Some d\<rparr>)))"

section \<open>weather_station_mapping\<close>

text \<open>
  \<open>left.merge(right, on=key, how="left")\<close>, as pandas 2 computes it on frames whose
  columns each hold cells of one dtype (int64, float64 with \<open>NaN\<close>, or object with
  strings and missing values).

  Converting an int64 to float64 rounds to 53 significant bits, ties to even; every
  integer below \<open>2^53\<close> in absolute value is kept.
\<close>

definition float64_of_int :: "int \<Rightarrow> rat" where
  "float64_of_int n =
     (let m = \<bar>n\<bar>;
          e = length (filter (\<lambda>k. 2 ^ (53 + k) \<le> m) [0..<11]);
          q = m div 2 ^ e;
          r = m mod 2 ^ e;
          q' = (if 2 ^ e < 2 * r \<or> (2 * r = 2 ^ e \<and> odd q) then q + 1 else q)
      in of_int (sgn n * (q' * 2 ^ e)))"

fun to_float64 :: "cell \<Rightarrow> cell" where
  "to_float64 (IntV w) = FloatV (float64_of_int (sint w))"
| "to_float64 v = v"

fun is_int :: "cell \<Rightarrow> bool" where
  "is_int (IntV w) = True"
| "is_int v = False"

fun is_null :: "cell \<Rightarrow> bool" where
  "is_null PyNone = True"
| "is_null NaN = True"
| "is_null v = False"

text \<open>
  Two keys are joined when they are equal: integers and floats by value, an int64 key
  against a float64 key after its conversion to float64, strings as strings, and
  missing keys match each other.
\<close>

fun key_eq :: "cell \<Rightarrow> cell \<Rightarrow> bool" where
  "key_eq (IntV a) (IntV b) = (a = b)"
| "key_eq (FloatV p) (FloatV q) = (p = q)"
| "key_eq (IntV a) (FloatV q) = (float64_of_int (sint a) = q)"
| "key_eq (FloatV p) (IntV b) = (p = float64_of_int (sint b))"
| "key_eq (Str s) (Str t) = (s = t)"
| "key_eq v v' = (is_null v \<and> is_null v')"

text \<open>
  Before joining, pandas compares the dtypes of the two key columns, unless exactly one
  of them is empty: a numeric key column against an object key column that holds no
  integer (strings, or strings and missing values) is a \<open>ValueError\<close>.
\<close>

definition dtype_name :: "cell list \<Rightarrow> string" where
  "dtype_name ks =
     (if list_all is_int ks then ''int64''
      else if list_all is_numeric ks then ''float64''
      else ''object'')"

definition string_like :: "cell list \<Rightarrow> bool" where
  "string_like ks \<longleftrightarrow> \<not> list_all is_numeric ks \<and> \<not> list_ex is_int ks"

definition key_dtype_mismatch :: "cell list \<Rightarrow> cell list \<Rightarrow> bool" where
  "key_dtype_mismatch lk rk \<longleftrightarrow>
     lk \<noteq> [] \<and> rk \<noteq> [] \<and>
     (list_all is_numeric lk \<and> string_like rk \<or> string_like lk \<and> list_all is_numeric rk)"

text \<open>
  Both frames must have the key label (\<open>KeyError\<close>), and only once (\<open>ValueError\<close>). The
  result has the columns of \<open>left\<close> followed by those of \<open>right\<close> without its key column;
  a label the two share apart from the key gets the suffix \<open>_x\<close> on the left and \<open>_y\<close>
  on the right, and a repeated label that only the suffixes produce is a \<open>MergeError\<close>.
  Every left row, in order, yields one row for each right row with an equal key, in the
  order of \<open>right\<close>, and a single row filled with \<open>NaN\<close> when there is none. When some
  left row has no match, the int64 columns taken from \<open>right\<close> become float64 columns.
\<close>

definition duplicated :: "'a list \<Rightarrow> bool list" where
  "duplicated xs = map (\<lambda>k. xs ! k \<in> set (take k xs)) [0..<length xs]"

definition suffix_duplicates :: "string list \<Rightarrow> string list \<Rightarrow> bool" where
  "suffix_duplicates old new =
     list_ex (\<lambda>(was, now). now \<and> \<not> was) (zip (duplicated old) (duplicated new))"

definition without_key :: "string \<Rightarrow> string list \<Rightarrow> 'a list \<Rightarrow> 'a list" where
  "without_key key cols xs = map snd (filter (\<lambda>p. fst p \<noteq> key) (zip cols xs))"

definition matching_rows :: "string \<Rightarrow> string list \<Rightarrow> dataframe \<Rightarrow> cell list \<Rightarrow> cell list list" where
  "matching_rows key lcols right lr =
     filter (\<lambda>rr. list_all2 key_eq (row_cells key lcols lr) (row_cells key (columns right) rr))
       (rows right)"

definition int64_columns :: "cell list list \<Rightarrow> nat \<Rightarrow> bool list" where
  "int64_columns rws width =
     foldr (\<lambda>r acc. map (\<lambda>(v, b). is_int v \<and> b) (zip r acc)) rws (replicate width True)"

definition promote :: "bool list \<Rightarrow> cell list \<Rightarrow> cell list" where
  "promote flags r = map (\<lambda>(b, v). if b then to_float64 v else v) (zip flags r)"

definition join_row ::
  "string \<Rightarrow> string list \<Rightarrow> dataframe \<Rightarrow> bool list \<Rightarrow> nat \<Rightarrow> cell list \<Rightarrow> cell list list" where
  "join_row key lcols right flags width lr =
     (case matching_rows key lcols right lr of
        [] \<Rightarrow> [lr @ replicate width NaN]
      | ms \<Rightarrow> map (\<lambda>rr. lr @ promote flags (without_key key (columns right) rr)) ms)"

definition df_merge_left :: "string \<Rightarrow> dataframe \<Rightarrow> dataframe \<Rightarrow> error + dataframe" where
  "df_merge_left key left right =
     (if key \<notin> set (columns left) \<or> key \<notin> set (columns right) then Inl (KeyError key)
      else if 1 < count_list (columns left) key \<or> 1 < count_list (columns right) key
        then Inl (ValueError (''The column label '' @ [CHR 0x27] @ key @ [CHR 0x27] @ '' is not unique.''))
      else
        let lk = concat (cells_under key left);
            rk = concat (cells_under key right)
        in if key_dtype_mismatch lk rk
           then Inl (ValueError (''You are trying to merge on '' @ dtype_name lk @ '' and ''
                  @ dtype_name rk @ '' columns for key '' @ [CHR 0x27] @ key @ [CHR 0x27]
                  @ ''. If you wish to proceed you should use pd.concat''))
           else
             let others = without_key key (columns right) (columns right);
                 llabels = map (\<lambda>c. if c \<in> set others then c @ ''_x'' else c) (columns left);
                 rlabels = map (\<lambda>c. if c \<in> set (columns left) then c @ ''_y'' else c) others
             in if suffix_duplicates (columns left) llabels \<or> suffix_duplicates others rlabels
                then Inl MergeError
                else
                  let unmatched = list_ex (\<lambda>lr. matching_rows key (columns left) right lr = [])
                                    (rows left);
                      flags = (if unmatched
                              then int64_columns (map (without_key key (columns right)) (rows right))
                                     (length others)
                              else replicate (length others) False)
                  in Inr \<lparr> columns = llabels @ rlabels,
                             rows = concat (map (join_row key (columns left) right flags
                                                (length rlabels)) (rows left)) \<rparr>)"

definition weather_station_mapping :: "world \<Rightarrow> operation" where
  "weather_station_mapping w self =
     (case read_from_web_CSV w (weather_map_data self) of
        Inl e \<Rightarrow> (Some e, self)
      | Inr weather_mapping_df \<Rightarrow>
          (case df self of
             None \<Rightarrow> (Some AttributeError, self)
           | Some d \<Rightarrow>
               (case df_merge_left ''Field_ID'' d weather_mapping_df of
                  Inl e \<Rightarrow> (Some e, self)
                | Inr d' \<Rightarrow> (None, self\<lparr>df := Some d'\<rparr>))))"

section \<open>process\<close>

text \<open>
  The four steps in order; the first exception ends the run and is raised again by the
  enclosing handler. \<open>apply_corrections\<close> is called without arguments, so its
  parameters take their defaults.
\<close>

definition process :: "world \<Rightarrow> operation" where
  "process w =
     and_then (ingest_sql_data w)
       (and_then rename_columns
          (and_then (apply_corrections ''Crop_type'' ''Elevation'')
             (weather_station_mapping w)))"

section \<open>Example data\<close>

text \<open>
  The configuration of \<open>config_params.py\<close> (the white space of the query is normalised),
  a survey table as the database delivers it, with the crop names under \<open>Annual_yield\<close>
  and the yields under \<open>Crop_type\<close>, a mapping table that covers fields 1 and 2, and the
  collaborators that deliver them.
\<close>

definition config_params :: config where
  "config_params =
     \<lparr> cfg_db_path = ''sqlite:///Maji_Ndogo_farm_survey_small.db'',
       cfg_sql_query = ''SELECT * FROM geographic_features LEFT JOIN weather_features USING (Field_ID) LEFT JOIN soil_and_crop_features USING (Field_ID) LEFT JOIN farm_management_features USING (Field_ID)'',
       cfg_columns_to_rename = [(''Annual_yield'', ''Crop_type''), (''Crop_type'', ''Annual_yield'')],
       cfg_values_to_rename = [''cassaval'' \<mapsto> ''cassava'', ''wheatn'' \<mapsto> ''wheat'', ''teaa'' \<mapsto> ''tea''],
       cfg_weather_mapping_csv = ''https://raw.githubusercontent.com/Explore-AI/Public-Data/master/Maji_Ndogo/Weather_data_field_mapping.csv'' \<rparr>"

definition survey :: dataframe where
  "survey =
     \<lparr> columns = [''Field_ID'', ''Elevation'', ''Annual_yield'', ''Crop_type''],
       rows = [[IntV 1, FloatV (- 5), Str ''cassaval'', FloatV (1 / 2)],
               [IntV 2, FloatV 3, Str ''tea'', FloatV (3 / 4)],
               [IntV 3, NaN, Str ''wheatn'', FloatV 1]] \<rparr>"

definition station_map :: dataframe where
  "station_map =
     \<lparr> columns = [''Weather_station'', ''Field_ID''],
       rows = [[IntV 4, IntV 1], [IntV 0, IntV 2]] \<rparr>"

definition served :: world where
  "served =
     \<lparr> create_engine = (\<lambda>p. None),
       read_sql_query = (\<lambda>p q. Inr survey),
       url_body = (\<lambda>u. Inr ''Weather_station,Field_ID''),
       parse_csv = (\<lambda>body. Inr station_map) \<rparr>"

text \<open>
  The object after ingestion, and the table after each of the three following steps.
  Field 3 has no station, so the station numbers of the joined table are floats.
\<close>

definition loaded :: field_data_processor where
  "loaded = (init config_params)
     \<lparr> df := Some survey, engine := Some ''sqlite:///Maji_Ndogo_farm_survey_small.db'' \<rparr>"

definition renamed_survey :: dataframe where
  "renamed_survey =
     \<lparr> columns = [''Field_ID'', ''Elevation'', ''Crop_type'', ''Annual_yield''],
       rows = [[IntV 1, FloatV (- 5), Str ''cassaval'', FloatV (1 / 2)],
               [IntV 2, FloatV 3, Str ''tea'', FloatV (3 / 4)],
               [IntV 3, NaN, Str ''wheatn'', FloatV 1]] \<rparr>"

definition corrected_survey :: dataframe where
  "corrected_survey =
     \<lparr> columns = [''Field_ID'', ''Elevation'', ''Crop_type'', ''Annual_yield''],
       rows = [[IntV 1, FloatV 5, Str ''cassava'', FloatV (1 / 2)],
               [IntV 2, FloatV 3, Str ''tea'', FloatV (3 / 4)],
               [IntV 3, NaN, Str ''wheat'', FloatV 1]] \<rparr>"

definition joined_survey :: dataframe where
  "joined_survey =
     \<lparr> columns = [''Field_ID'', ''Elevation'', ''Crop_type'', ''Annual_yield'', ''Weather_station''],
       rows = [[IntV 1, FloatV 5, Str ''cassava'', FloatV (1 / 2), FloatV 4],
               [IntV 2, FloatV 3, Str ''tea'', FloatV (3 / 4), FloatV 0],
               [IntV 3, NaN, Str ''wheat'', FloatV 1, NaN]] \<rparr>"

section \<open>Properties of the conversion to float64\<close>

lemma float64_of_int_exact:
  assumes "\<bar>n\<bar> < 2 ^ 53"
  shows "float64_of_int n = of_int n"
proof -
  have "filter (\<lambda>k. 2 ^ (53 + k) \<le> \<bar>n\<bar>) [0..<11] = []"
  proof -
    have "\<not> 2 ^ (53 + k) \<le> \<bar>n\<bar>" for k :: nat
    proof -
      have "(2::int) ^ 53 \<le> 2 ^ (53 + k)"
        by (rule power_increasing) simp_all
      with assms show ?thesis by linarith
    qed
    then show ?thesis by simp
  qed
  moreover have "sgn n * \<bar>n\<bar> = n"
    by (rule mult_sgn_abs)
  ultimately show ?thesis
    by (simp only: float64_of_int_def Let_def list.size power_0 div_by_1 mod_by_1)
      (simp del: of_int_mult)
qed

section \<open>Properties of rename_columns\<close>

lemma temp_name_loop_fresh: "temp_name_loop cols t \<notin> set cols"
proof (induction cols t rule: temp_name_loop.induct)
  case (1 cols temp_name)
  then show ?case
    by (cases "temp_name \<in> set cols") (simp_all add: temp_name_loop.simps [of cols temp_name])
qed

lemma rows_df_rename [simp]: "rows (df_rename m d) = rows d"
  by (simp add: df_rename_def)

lemma columns_df_rename [simp]:
  "columns (df_rename m d) = map (\<lambda>c. case m c of Some c' \<Rightarrow> c' | None \<Rightarrow> c) (columns d)"
  by (simp add: df_rename_def)

lemma rename_columns_result:
  assumes "columns_to_rename self = (c1, c2) # rest" and "df self = Some d"
  shows "rename_columns self =
    (None, self\<lparr>df := Some (d\<lparr>columns :=
       map (\<lambda>c. let t = temp_name_loop (columns d) ''__temp_name_for_swap__'';
                    c' = (if c = c2 then c1 else if c = c1 then t else c)
                in if c' = t then c2 else c') (columns d)\<rparr>)\<rparr>)"
  using assms by (simp add: rename_columns_def df_rename_def Let_def)

lemma rename_columns_both_present:
  assumes "columns_to_rename self = (c1, c2) # rest" and "df self = Some d"
    and "c1 \<in> set (columns d)" and "c2 \<in> set (columns d)"
  shows "rename_columns self =
    (None, self\<lparr>df := Some (d\<lparr>columns := map (swap_label c1 c2) (columns d)\<rparr>)\<rparr>)"
proof -
  let ?t = "temp_name_loop (columns d) ''__temp_name_for_swap__''"
  have fresh: "?t \<notin> set (columns d)"
    by (rule temp_name_loop_fresh)
  have "map (\<lambda>c. let t = ?t; c' = (if c = c2 then c1 else if c = c1 then t else c)
                in if c' = t then c2 else c') (columns d)
        = map (swap_label c1 c2) (columns d)"
  proof (rule map_cong [OF refl])
    fix c assume "c \<in> set (columns d)"
    with fresh assms(3,4) show "(let t = ?t; c' = (if c = c2 then c1 else if c = c1 then t else c)
                in if c' = t then c2 else c') = swap_label c1 c2 c"
      by (auto simp: swap_label_def Let_def)
  qed
  with rename_columns_result [OF assms(1,2)] show ?thesis
    by simp
qed

lemma swap_label_eq_iff:
  "swap_label a b c = a \<longleftrightarrow> c = b" "swap_label a b c = b \<longleftrightarrow> c = a"
  by (auto simp: swap_label_def)

lemma swap_label_other: "x \<noteq> a \<Longrightarrow> x \<noteq> b \<Longrightarrow> swap_label a b c = x \<longleftrightarrow> c = x"
  by (auto simp: swap_label_def)

lemma swap_label_twice [simp]: "swap_label a b (swap_label a b c) = c"
  by (auto simp: swap_label_def)

lemma row_cells_map_label:
  assumes "\<And>l. l \<in> set cols \<Longrightarrow> f l = c' \<longleftrightarrow> l = c"
  shows "row_cells c' (map f cols) r = row_cells c cols r"
  using assms
proof (induction cols arbitrary: r)
  case Nil
  then show ?case by (simp add: row_cells_def)
next
  case (Cons l cols)
  then have "row_cells c' (map f cols) r' = row_cells c cols r'" for r'
    by simp
  with Cons.prems [of l] show ?case
    by (cases r) (simp_all add: row_cells_def)
qed

lemma cells_under_map_label:
  assumes "\<And>l. l \<in> set (columns d) \<Longrightarrow> f l = c' \<longleftrightarrow> l = c"
  shows "cells_under c' (d\<lparr>columns := map f (columns d)\<rparr>) = cells_under c d"
  by (simp add: cells_under_def row_cells_map_label [of "columns d" f, OF assms])

text \<open>
  C1. When both configured names label columns of the table, \<open>rename_columns\<close> returns
  normally, and afterwards the cells under the first name are those that were under the
  second name and conversely; the rows themselves, and the cells under every other
  label, are the ones the table had.
\<close>

theorem rename_columns_swaps_data:
  assumes "columns_to_rename self = (c1, c2) # rest" and "df self = Some d"
    and "c1 \<in> set (columns d)" and "c2 \<in> set (columns d)"
  shows "\<exists>d'. rename_columns self = (None, self\<lparr>df := Some d'\<rparr>)
            \<and> cells_under c1 d' = cells_under c2 d
            \<and> cells_under c2 d' = cells_under c1 d
            \<and> rows d' = rows d
            \<and> (\<forall>c. c \<noteq> c1 \<and> c \<noteq> c2 \<longrightarrow> cells_under c d' = cells_under c d)"
proof -
  let ?d' = "d\<lparr>columns := map (swap_label c1 c2) (columns d)\<rparr>"
  have "rename_columns self = (None, self\<lparr>df := Some ?d'\<rparr>)"
    by (rule rename_columns_both_present [OF assms])
  moreover have "cells_under c1 ?d' = cells_under c2 d"
    by (rule cells_under_map_label) (rule swap_label_eq_iff)
  moreover have "cells_under c2 ?d' = cells_under c1 d"
    by (rule cells_under_map_label) (rule swap_label_eq_iff)
  moreover have "rows ?d' = rows d"
    by simp
  moreover have "\<forall>c. c \<noteq> c1 \<and> c \<noteq> c2 \<longrightarrow> cells_under c ?d' = cells_under c d"
    by (auto intro!: cells_under_map_label swap_label_other)
  ultimately show ?thesis
    by blast
qed

lemma swap_label_mem:
  "c1 \<in> set cols \<Longrightarrow> c2 \<in> set cols \<Longrightarrow>
   c1 \<in> set (map (swap_label c1 c2) cols) \<and> c2 \<in> set (map (swap_label c1 c2) cols)"
  by (force simp: swap_label_def image_iff)

text \<open>
  C8. When both configured names label columns of the table, running \<open>rename_columns\<close>
  twice returns normally and leaves the object, and so every label and every cell of
  its table, as it was before the first run.
\<close>

theorem rename_columns_involution:
  assumes "columns_to_rename self = (c1, c2) # rest" and "df self = Some d"
    and "c1 \<in> set (columns d)" and "c2 \<in> set (columns d)"
  shows "and_then rename_columns rename_columns self = (None, self)"
proof -
  let ?d' = "d\<lparr>columns := map (swap_label c1 c2) (columns d)\<rparr>"
  let ?s = "self\<lparr>df := Some ?d'\<rparr>"
  have one: "rename_columns self = (None, ?s)"
    by (rule rename_columns_both_present [OF assms])
  have cfg: "columns_to_rename ?s = (c1, c2) # rest" and tbl: "df ?s = Some ?d'"
    using assms(1) by simp_all
  have mem: "c1 \<in> set (columns ?d')" "c2 \<in> set (columns ?d')"
    using swap_label_mem [OF assms(3,4)] by simp_all
  have "rename_columns ?s =
      (None, ?s\<lparr>df := Some (?d'\<lparr>columns := map (swap_label c1 c2) (columns ?d')\<rparr>)\<rparr>)"
    by (rule rename_columns_both_present [OF cfg tbl mem])
  also have "?d'\<lparr>columns := map (swap_label c1 c2) (columns ?d')\<rparr> = d"
    by (simp add: comp_def)
  finally have two: "rename_columns ?s = (None, self)"
    using assms(2) by simp
  show ?thesis
    by (simp add: and_then_def one two)
qed

text \<open>
  C5, as the code has it. When one of the two configured names labels no column of the
  table, \<open>rename_columns\<close> raises nothing: it returns normally with the rows untouched
  and the cells under every label other than the two names as they were, and when
  neither name labels a column the table is the one it was.
\<close>

theorem rename_columns_missing_column:
  assumes "columns_to_rename self = (c1, c2) # rest" and "df self = Some d"
    and "c1 \<notin> set (columns d) \<or> c2 \<notin> set (columns d)"
  shows "\<exists>d'. rename_columns self = (None, self\<lparr>df := Some d'\<rparr>)
            \<and> rows d' = rows d
            \<and> (\<forall>c. c \<noteq> c1 \<and> c \<noteq> c2 \<longrightarrow> cells_under c d' = cells_under c d)
            \<and> (c1 \<notin> set (columns d) \<and> c2 \<notin> set (columns d) \<longrightarrow> d' = d)"
proof -
  let ?t = "temp_name_loop (columns d) ''__temp_name_for_swap__''"
  let ?f = "\<lambda>c. let t = ?t; c' = (if c = c2 then c1 else if c = c1 then t else c)
                in if c' = t then c2 else c'"
  let ?d' = "d\<lparr>columns := map ?f (columns d)\<rparr>"
  have fresh: "?t \<notin> set (columns d)"
    by (rule temp_name_loop_fresh)
  have res: "rename_columns self = (None, self\<lparr>df := Some ?d'\<rparr>)"
    by (rule rename_columns_result [OF assms(1,2)])
  have other: "cells_under c ?d' = cells_under c d" if "c \<noteq> c1 \<and> c \<noteq> c2" for c
  proof (rule cells_under_map_label)
    fix l assume "l \<in> set (columns d)"
    with fresh that show "?f l = c \<longleftrightarrow> l = c"
      by (auto simp: Let_def)
  qed
  have none: "?d' = d" if "c1 \<notin> set (columns d) \<and> c2 \<notin> set (columns d)"
  proof -
    have "map ?f (columns d) = map (\<lambda>c. c) (columns d)"
      using that fresh by (intro map_cong [OF refl]) (auto simp: Let_def)
    then show ?thesis by simp
  qed
  from res other none show ?thesis
    by (intro exI [of _ ?d']) simp
qed

section \<open>Properties of apply_corrections\<close>

lemma length_map_under [simp]: "length (map_under f c cols r) = length r"
  by (induction f c cols r rule: map_under.induct) simp_all

lemma row_cells_Cons [simp]:
  "row_cells c (l # ls) (v # vs) = (if l = c then v # row_cells c ls vs else row_cells c ls vs)"
  by (simp add: row_cells_def)

lemma row_cells_Nil [simp]: "row_cells c [] r = []" "row_cells c cols [] = []"
  by (simp_all add: row_cells_def)

lemma row_cells_map_under_same:
  "row_cells c cols (map_under f c cols r) = map f (row_cells c cols r)"
  by (induction f c cols r rule: map_under.induct) simp_all

lemma row_cells_map_under_other:
  "a \<noteq> c \<Longrightarrow> row_cells a cols (map_under f c cols r) = row_cells a cols r"
  by (induction f c cols r rule: map_under.induct) simp_all

lemma map_under_comp:
  "map_under f c cols (map_under g c cols r) = map_under (f \<circ> g) c cols r"
  by (induction g c cols r rule: map_under.induct) simp_all

lemma map_under_commute:
  "a \<noteq> c \<Longrightarrow> map_under f c cols (map_under g a cols r) = map_under g a cols (map_under f c cols r)"
  by (induction g a cols r rule: map_under.induct) simp_all

lemma map_under_cong:
  "(\<And>v. v \<in> set (row_cells c cols r) \<Longrightarrow> f v = g v) \<Longrightarrow> map_under f c cols r = map_under g c cols r"
  by (induction f c cols r rule: map_under.induct) (simp_all split: if_splits)

lemma int64_abs_min: "int64_abs (- (2 ^ 63)) = - (2 ^ 63)"
  by (simp add: int64_abs_def)

lemma sint_min64: "sint (- (2 ^ 63) :: 64 word) = - (2 ^ 63)"
  by simp

lemma sint_neg64:
  fixes w :: "64 word"
  assumes "w \<noteq> - (2 ^ 63)"
  shows "sint (- w) = - sint w"
proof -
  have "sint w \<noteq> - (2 ^ 63)"
  proof
    assume "sint w = - (2 ^ 63)"
    then have "sint w = sint (- (2 ^ 63) :: 64 word)"
      by (simp only: sint_min64)
    then have "w = - (2 ^ 63)"
      by (rule signed_word_eqI)
    with assms show False by simp
  qed
  moreover have "- (2 ^ 63) \<le> sint w" "sint w < 2 ^ 63"
    using sint_ge [of w] sint_lt [of w] by simp_all
  ultimately have "- (2 ^ 63) \<le> - sint w" "- sint w < 2 ^ 63"
    by linarith+
  then have "signed_take_bit 63 (- sint w) = - sint w"
    by (simp add: signed_take_bit_int_eq_self_iff)
  then show ?thesis
    by (simp add: sint_word_ariths)
qed

lemma int64_abs_nonneg: "w \<noteq> - (2 ^ 63) \<Longrightarrow> 0 \<le> sint (int64_abs w)"
  by (simp add: int64_abs_def sint_neg64)

lemma int64_abs_idem: "int64_abs (int64_abs w) = int64_abs w"
proof (cases "w = - (2 ^ 63)")
  case True
  then show ?thesis by (simp only: int64_abs_min)
next
  case False
  then have "0 \<le> sint (int64_abs w)" by (rule int64_abs_nonneg)
  then show ?thesis by (simp add: int64_abs_def [of "int64_abs w"])
qed

lemma int64_abs_fix: "0 \<le> sint w \<Longrightarrow> int64_abs w = w"
  by (simp add: int64_abs_def)

lemma columns_map_column [simp]: "columns (map_column f c d) = columns d"
  by (simp add: map_column_def)

lemma cells_under_map_column_same:
  "cells_under c (map_column f c d) = map (map f) (cells_under c d)"
  by (simp add: cells_under_def map_column_def row_cells_map_under_same)

lemma cells_under_map_column_other:
  "a \<noteq> c \<Longrightarrow> cells_under a (map_column f c d) = cells_under a d"
  by (simp add: cells_under_def map_column_def row_cells_map_under_other)

lemma map_column_comp: "map_column f c (map_column g c d) = map_column (f \<circ> g) c d"
  by (simp add: map_column_def map_under_comp)

lemma map_column_commute:
  "a \<noteq> c \<Longrightarrow> map_column f c (map_column g a d) = map_column g a (map_column f c d)"
  by (simp add: map_column_def map_under_commute)

lemma map_column_cong:
  assumes "\<And>v. v \<in> \<Union> (set ` set (cells_under c d)) \<Longrightarrow> f v = g v"
  shows "map_column f c d = map_column g c d"
proof -
  have "map_under f c (columns d) r = map_under g c (columns d) r" if "r \<in> set (rows d)" for r
  proof (rule map_under_cong)
    fix v assume "v \<in> set (row_cells c (columns d) r)"
    with that have "v \<in> \<Union> (set ` set (cells_under c d))"
      by (auto simp: cells_under_def)
    then show "f v = g v" by (rule assms)
  qed
  then show ?thesis
    by (simp add: map_column_def)
qed

lemma abs_val_idem [simp]: "abs_val (abs_val v) = abs_val v"
  by (cases v) (simp_all add: int64_abs_idem)

lemma is_numeric_abs_val [simp]: "is_numeric (abs_val v) = is_numeric v"
  by (cases v) simp_all

lemma get_or_self_numeric [simp]: "is_numeric v \<Longrightarrow> get_or_self m v = v"
  by (cases v) simp_all

lemma is_numeric_get_or_self [simp]: "is_numeric (get_or_self m v) = is_numeric v"
  by (cases v) (simp_all split: option.splits)

lemma get_or_self_idem:
  assumes "ran m \<inter> dom m = {}"
  shows "get_or_self m (get_or_self m v) = get_or_self m v"
proof (cases v)
  case (Str s)
  show ?thesis
  proof (cases "m s")
    case None
    with Str show ?thesis by simp
  next
    case (Some s')
    then have "s' \<in> ran m" by (auto simp: ran_def)
    with assms have "m s' = None" by (auto simp: dom_def)
    with Some Str show ?thesis by simp
  qed
qed simp_all

lemma int64_abs_min_numeral: "int64_abs (- 9223372036854775808) = - 9223372036854775808"
  by (simp add: int64_abs_def)

lemma sign_corrected_abs_val: "is_numeric v \<Longrightarrow> sign_corrected v (abs_val v)"
proof (cases v)
  case (IntV w)
  then show ?thesis
    by (auto simp: sign_corrected_def int64_abs_min_numeral int64_abs_nonneg int64_abs_fix)
qed (simp_all add: sign_corrected_def)

text \<open>The table after the first assignment of apply_corrections, and the outcome.\<close>

lemma apply_corrections_unfold:
  assumes "df self = Some d" and "a \<in> set (columns d)"
    and "list_all (list_all is_numeric) (cells_under a d)"
  shows "apply_corrections c a self =
     (if c \<notin> set (columns d) then (Some (KeyError c), self\<lparr>df := Some (map_column abs_val a d)\<rparr>)
      else if 1 < count_list (columns d) c
        then (Some TypeError, self\<lparr>df := Some (map_column abs_val a d)\<rparr>)
      else (None, self\<lparr>df := Some (map_column (get_or_self (values_to_rename self)) c
                                      (map_column abs_val a d))\<rparr>))"
  using assms by (simp add: apply_corrections_def Let_def)

lemma cells_under_after_corrections:
  assumes "list_all (list_all is_numeric) (cells_under a d)"
  shows "cells_under a (map_column (get_or_self m) c (map_column abs_val a d))
           = map (map abs_val) (cells_under a d)"
proof (cases "a = c")
  case False
  then show ?thesis
    by (simp add: cells_under_map_column_other cells_under_map_column_same)
next
  case True
  have "map (map (get_or_self m \<circ> abs_val)) (cells_under a d) = map (map abs_val) (cells_under a d)"
    using assms by (intro map_cong refl) (auto simp: list_all_iff)
  with True show ?thesis
    by (simp add: map_column_comp cells_under_map_column_same)
qed

text \<open>
  C3, as the code has it. When the table has the numeric column, after
  \<open>apply_corrections\<close>, however it ends, every cell of that column is related to the
  cell it replaces as follows: \<open>NaN\<close> stays \<open>NaN\<close>, the least 64-bit integer stays
  itself, every other value has become a value \<open>>= 0\<close>, and a value that was
  \<open>>= 0\<close> is unchanged.
\<close>

theorem apply_corrections_sign:
  assumes "df self = Some d" and "a \<in> set (columns d)"
    and "list_all (list_all is_numeric) (cells_under a d)"
  shows "\<exists>d'. df (snd (apply_corrections c a self)) = Some d'
           \<and> list_all2 (list_all2 sign_corrected) (cells_under a d) (cells_under a d')"
proof -
  have sc: "list_all2 (list_all2 sign_corrected) (cells_under a d) (map (map abs_val) (cells_under a d))"
    using assms(3)
    by (auto simp: list_all2_conv_all_nth list_all_length intro!: sign_corrected_abs_val)
  have "cells_under a (map_column abs_val a d) = map (map abs_val) (cells_under a d)"
    by (rule cells_under_map_column_same)
  with sc cells_under_after_corrections [OF assms(3)] show ?thesis
    by (simp add: apply_corrections_unfold [OF assms])
qed

text \<open>
  C2, as the code has it. When the table has the numeric column and has the categorical
  column once, and the two are different columns, \<open>apply_corrections\<close> returns normally;
  each cell of the categorical column is then the map's value for the cell it replaces
  when that is a key of the map and the same cell otherwise, each cell of the numeric
  column is the absolute value of the cell it replaces, and the cells under every other
  label, and the labels, are unchanged.
\<close>

theorem apply_corrections_values:
  assumes "df self = Some d" and "a \<in> set (columns d)"
    and "list_all (list_all is_numeric) (cells_under a d)"
    and "count_list (columns d) c = 1" and "c \<noteq> a"
  shows "\<exists>d'. apply_corrections c a self = (None, self\<lparr>df := Some d'\<rparr>)
           \<and> cells_under c d' = map (map (get_or_self (values_to_rename self))) (cells_under c d)
           \<and> cells_under a d' = map (map abs_val) (cells_under a d)
           \<and> (\<forall>x. x \<noteq> c \<and> x \<noteq> a \<longrightarrow> cells_under x d' = cells_under x d)
           \<and> columns d' = columns d"
proof -
  let ?g = "get_or_self (values_to_rename self)"
  let ?d' = "map_column ?g c (map_column abs_val a d)"
  have "c \<in> set (columns d)"
    using assms(4) by (metis count_notin zero_neq_one)
  with assms(4) have "apply_corrections c a self = (None, self\<lparr>df := Some ?d'\<rparr>)"
    by (simp add: apply_corrections_unfold [OF assms(1-3)])
  moreover have "cells_under c ?d' = map (map ?g) (cells_under c d)"
    using assms(5) by (simp add: cells_under_map_column_same cells_under_map_column_other)
  moreover have "cells_under a ?d' = map (map abs_val) (cells_under a d)"
    by (rule cells_under_after_corrections [OF assms(3)])
  moreover have "\<forall>x. x \<noteq> c \<and> x \<noteq> a \<longrightarrow> cells_under x ?d' = cells_under x d"
    by (simp add: cells_under_map_column_other)
  moreover have "columns ?d' = columns d"
    by simp
  ultimately show ?thesis
    by blast
qed

lemma corrections_fixpoint:
  assumes num: "list_all (list_all is_numeric) (cells_under a d)"
    and disj: "ran m \<inter> dom m = {}"
  shows "map_column (get_or_self m) c (map_column abs_val a
            (map_column (get_or_self m) c (map_column abs_val a d)))
         = map_column (get_or_self m) c (map_column abs_val a d)"
proof (cases "a = c")
  case False
  have gg: "get_or_self m \<circ> get_or_self m = get_or_self m"
    by (rule ext) (simp add: get_or_self_idem [OF disj])
  have aa: "abs_val \<circ> abs_val = abs_val"
    by (rule ext) simp
  have "map_column abs_val a (map_column (get_or_self m) c (map_column abs_val a d))
        = map_column (get_or_self m) c (map_column abs_val a (map_column abs_val a d))"
    using False by (simp add: map_column_commute [of c a])
  then show ?thesis
    by (simp add: map_column_comp gg aa)
next
  case True
  have "map_column (get_or_self m \<circ> abs_val) a d = map_column abs_val a d"
    using num by (intro map_column_cong) (auto simp: list_all_iff)
  then have eq: "map_column (get_or_self m) a (map_column abs_val a d) = map_column abs_val a d"
    by (simp only: map_column_comp)
  have aa: "map_column abs_val a (map_column abs_val a d) = map_column abs_val a d"
    by (simp add: map_column_comp comp_def)
  have "map_column (get_or_self m) a (map_column abs_val a
            (map_column (get_or_self m) a (map_column abs_val a d)))
        = map_column (get_or_self m) a (map_column abs_val a d)"
    by (simp only: eq aa)
  with True show ?thesis
    by simp
qed

text \<open>
  C9. When no value of the correction map is one of its keys, running
  \<open>apply_corrections\<close> twice ends exactly as running it once: with the same table after
  a normal return, and with the same exception and table when the first run raises.
\<close>

theorem apply_corrections_idempotent:
  assumes "ran (values_to_rename self) \<inter> dom (values_to_rename self) = {}"
  shows "and_then (apply_corrections c a) (apply_corrections c a) self = apply_corrections c a self"
proof (cases "df self")
  case None
  then show ?thesis
    by (simp add: and_then_def apply_corrections_def)
next
  case (Some d)
  let ?m = "values_to_rename self"
  let ?d2 = "map_column (get_or_self ?m) c (map_column abs_val a d)"
  let ?s2 = "self\<lparr>df := Some ?d2\<rparr>"
  show ?thesis
  proof (cases "a \<in> set (columns d) \<and> list_all (list_all is_numeric) (cells_under a d)
                 \<and> c \<in> set (columns d) \<and> \<not> 1 < count_list (columns d) c")
    case False
    with Some show ?thesis
      by (auto simp: and_then_def apply_corrections_def Let_def)
  next
    case True
    then have a: "a \<in> set (columns d)" and num: "list_all (list_all is_numeric) (cells_under a d)"
      and c: "c \<in> set (columns d)" and uniq: "\<not> 1 < count_list (columns d) c"
      by simp_all
    have first: "apply_corrections c a self = (None, ?s2)"
      using c uniq by (simp add: apply_corrections_unfold [OF Some a num])
    have tbl: "df ?s2 = Some ?d2" and a2: "a \<in> set (columns ?d2)"
      using a by simp_all
    have num2: "list_all (list_all is_numeric) (cells_under a ?d2)"
      using num by (simp add: cells_under_after_corrections [OF num] list_all_iff)
    have "apply_corrections c a ?s2 =
        (None, ?s2\<lparr>df := Some (map_column (get_or_self ?m) c (map_column abs_val a ?d2))\<rparr>)"
      using c uniq by (simp add: apply_corrections_unfold [OF tbl a2 num2])
    then have "apply_corrections c a ?s2 = (None, ?s2)"
      by (simp add: corrections_fixpoint [OF num assms])
    with first show ?thesis
      by (simp add: and_then_def)
  qed
qed

section \<open>Properties of process\<close>

lemma and_then_assoc: "and_then (and_then f g) h = and_then f (and_then g h)"
  by (rule ext) (simp add: and_then_def split: prod.splits option.splits)

lemma apply_corrections_other_columns:
  assumes "df self = Some d"
  shows "\<exists>d'. df (snd (apply_corrections c a self)) = Some d'
           \<and> (\<forall>x. x \<noteq> c \<and> x \<noteq> a \<longrightarrow> cells_under x d' = cells_under x d)"
  using assms by (auto simp: apply_corrections_def Let_def cells_under_map_column_other)

lemma rename_columns_normal:
  assumes "rename_columns self = (None, s')"
  shows "\<exists>d. df s' = Some d"
  using assms by (auto simp: rename_columns_def Let_def split: list.splits option.splits)

text \<open>
  C10. Whatever the configuration, once ingestion and renaming have returned normally
  \<open>process\<close> continues with \<open>apply_corrections\<close> on the labels \<open>Crop_type\<close> and
  \<open>Elevation\<close>: the cells under every other label are the same after that step as
  before it, and a table without a column labelled \<open>Elevation\<close> makes \<open>process\<close> raise
  \<open>KeyError\<close> for that label.
\<close>

theorem process_corrections_fixed_columns:
  assumes "and_then (ingest_sql_data w) rename_columns self = (None, s2)"
  shows "process w self
           = and_then (apply_corrections ''Crop_type'' ''Elevation'') (weather_station_mapping w) s2
       \<and> (\<exists>d2 d3. df s2 = Some d2
             \<and> df (snd (apply_corrections ''Crop_type'' ''Elevation'' s2)) = Some d3
             \<and> (\<forall>c. c \<noteq> ''Crop_type'' \<and> c \<noteq> ''Elevation''
                     \<longrightarrow> cells_under c d3 = cells_under c d2)
             \<and> (''Elevation'' \<notin> set (columns d2)
                     \<longrightarrow> process w self = (Some (KeyError ''Elevation''), s2)))"
proof -
  have "process w self = and_then (and_then (ingest_sql_data w) rename_columns)
          (and_then (apply_corrections ''Crop_type'' ''Elevation'') (weather_station_mapping w)) self"
    by (simp add: process_def and_then_assoc)
  with assms have run: "process w self
      = and_then (apply_corrections ''Crop_type'' ''Elevation'') (weather_station_mapping w) s2"
    by (simp add: and_then_def [of "and_then (ingest_sql_data w) rename_columns"])
  obtain s1 where "rename_columns s1 = (None, s2)"
    using assms by (auto simp: and_then_def split: prod.splits option.splits)
  then obtain d2 where d2: "df s2 = Some d2"
    using rename_columns_normal by blast
  obtain d3 where d3: "df (snd (apply_corrections ''Crop_type'' ''Elevation'' s2)) = Some d3"
    and other: "\<forall>c. c \<noteq> ''Crop_type'' \<and> c \<noteq> ''Elevation'' \<longrightarrow> cells_under c d3 = cells_under c d2"
    using apply_corrections_other_columns [OF d2] by blast
  have "process w self = (Some (KeyError ''Elevation''), s2)" if "''Elevation'' \<notin> set (columns d2)"
    using that d2 by (simp add: run and_then_def apply_corrections_def)
  with run d2 d3 other show ?thesis
    by blast
qed

section \<open>Properties of weather_station_mapping\<close>












section \<open>Properties of failing runs\<close>

lemma read_from_web_CSV_empty_body:
  "url_body w u = Inr [] \<Longrightarrow> read_from_web_CSV w u = Inl EmptyDataError"
  by (simp add: read_from_web_CSV_def pd_read_csv_def)

text \<open>
  C7. When the body served at the configured address is empty,
  \<open>weather_station_mapping\<close> raises \<open>EmptyDataError\<close>, the exception of a resource that
  cannot be parsed, and leaves the object as it found it; so a run of \<open>process\<close> whose
  first three steps returned normally ends with that exception and with the table
  that \<open>apply_corrections\<close> produced.
\<close>

theorem weather_station_mapping_empty_body:
  assumes "url_body w (weather_map_data self) = Inr []"
  shows "weather_station_mapping w self = (Some EmptyDataError, self)
       \<and> (\<forall>s0. and_then (ingest_sql_data w)
                  (and_then rename_columns (apply_corrections ''Crop_type'' ''Elevation'')) s0
                  = (None, self)
                \<longrightarrow> process w s0 = (Some EmptyDataError, self))"
proof -
  have fail: "weather_station_mapping w self = (Some EmptyDataError, self)"
    by (simp add: weather_station_mapping_def read_from_web_CSV_empty_body [OF assms])
  have "process w s0 = (Some EmptyDataError, self)"
    if "and_then (ingest_sql_data w)
          (and_then rename_columns (apply_corrections ''Crop_type'' ''Elevation'')) s0 = (None, self)"
    for s0
  proof -
    have "process w s0 = and_then (and_then (ingest_sql_data w)
            (and_then rename_columns (apply_corrections ''Crop_type'' ''Elevation'')))
            (weather_station_mapping w) s0"
      by (simp add: process_def and_then_assoc)
    with that fail show ?thesis
      by (simp add: and_then_def [of "and_then (ingest_sql_data w)
            (and_then rename_columns (apply_corrections ''Crop_type'' ''Elevation''))"])
  qed
  with fail show ?thesis
    by blast
qed

text \<open>
  C6. When the engine is created and the query yields no rows, \<open>process\<close> raises the
  \<open>ValueError\<close> of the empty result, ends exactly as \<open>ingest_sql_data\<close> alone does, with
  only the engine assigned, and a table that was unset is still unset.
\<close>

theorem process_empty_query_result:
  assumes "create_engine w (db_path self) = None"
    and "read_sql_query w (db_path self) (sql_query self) = Inr d" and "rows d = []"
  shows "process w self = (Some (ValueError ''The query returned an empty DataFrame.''),
                            self\<lparr>engine := Some (db_path self)\<rparr>)
       \<and> process w self = ingest_sql_data w self
       \<and> (df self = None \<longrightarrow> df (snd (process w self)) = None)"
proof -
  have "ingest_sql_data w self = (Some (ValueError ''The query returned an empty DataFrame.''),
                            self\<lparr>engine := Some (db_path self)\<rparr>)"
    using assms
    by (simp add: ingest_sql_data_def create_db_engine_def query_data_def df_empty_def Let_def)
  then show ?thesis
    by (simp add: process_def and_then_def)
qed

section \<open>The example run\<close>

lemmas example_defs =
  init_def config_params_def survey_def station_map_def served_def loaded_def
  renamed_survey_def corrected_survey_def joined_survey_def

lemma ingest_example: "ingest_sql_data served (init config_params) = (None, loaded)"
  by (simp add: ingest_sql_data_def create_db_engine_def query_data_def df_empty_def example_defs)

lemma rename_example: "rename_columns loaded = (None, loaded\<lparr>df := Some renamed_survey\<rparr>)"
  by (simp add: rename_columns_def df_rename_def temp_name_loop.simps example_defs)

lemma corrections_example:
  "apply_corrections ''Crop_type'' ''Elevation'' (loaded\<lparr>df := Some renamed_survey\<rparr>)
     = (None, loaded\<lparr>df := Some corrected_survey\<rparr>)"
  by (simp add: apply_corrections_def cells_under_def map_column_def example_defs)

lemma merge_example: "df_merge_left ''Field_ID'' corrected_survey station_map = Inr joined_survey"
  by (simp add: df_merge_left_def suffix_duplicates_def duplicated_def without_key_def
      key_dtype_mismatch_def string_like_def cells_under_def int64_columns_def promote_def
      join_row_def matching_rows_def float64_of_int_exact Let_def upt_rec example_defs)

text \<open>
  An int64 key is joined with the float64 key of the same value, and the station number
  of the joined row is a float because another row has no station; string keys against
  int64 keys are refused.
\<close>

lemma merge_mixed_keys_example:
  "df_merge_left ''Field_ID''
     \<lparr>columns = [''Field_ID''], rows = [[IntV 1], [IntV 2]]\<rparr>
     \<lparr>columns = [''Field_ID'', ''Weather_station''], rows = [[FloatV 1, IntV 7]]\<rparr>
   = Inr \<lparr>columns = [''Field_ID'', ''Weather_station''],
           rows = [[IntV 1, FloatV 7], [IntV 2, NaN]]\<rparr>"
  by (simp add: df_merge_left_def suffix_duplicates_def duplicated_def without_key_def
      key_dtype_mismatch_def string_like_def cells_under_def int64_columns_def promote_def
      join_row_def matching_rows_def float64_of_int_exact Let_def upt_rec)

lemma merge_string_keys_example:
  "df_merge_left ''Field_ID''
     \<lparr>columns = [''Field_ID''], rows = [[Str ''1'']]\<rparr>
     \<lparr>columns = [''Field_ID'', ''Weather_station''], rows = [[IntV 1, IntV 7]]\<rparr>
   = Inl (ValueError ''You are trying to merge on object and int64 columns for key 'Field_ID'. If you wish to proceed you should use pd.concat'')"
  by (simp add: df_merge_left_def key_dtype_mismatch_def string_like_def cells_under_def
      dtype_name_def Let_def)

lemma fetch_example: "read_from_web_CSV served u = Inr station_map"
  by (simp add: read_from_web_CSV_def pd_read_csv_def served_def)

lemma mapping_example:
  "weather_station_mapping served (loaded\<lparr>df := Some corrected_survey\<rparr>)
     = (None, loaded\<lparr>df := Some joined_survey\<rparr>)"
  by (simp add: weather_station_mapping_def fetch_example merge_example)

lemma loaded_fields:
  "columns_to_rename loaded = (''Annual_yield'', ''Crop_type'') # [(''Crop_type'', ''Annual_yield'')]"
  "df loaded = Some survey"
  "weather_map_data loaded = cfg_weather_mapping_csv config_params"
  "values_to_rename loaded = [''cassaval'' \<mapsto> ''cassava'', ''wheatn'' \<mapsto> ''wheat'', ''teaa'' \<mapsto> ''tea'']"
  by (simp_all add: loaded_def init_def config_params_def)

lemma df_update_inject:
  "s\<lparr>df := Some d1\<rparr> = s\<lparr>df := Some d2\<rparr> \<Longrightarrow> d1 = d2"
proof -
  assume "s\<lparr>df := Some d1\<rparr> = s\<lparr>df := Some d2\<rparr>"
  then have "df (s\<lparr>df := Some d1\<rparr>) = df (s\<lparr>df := Some d2\<rparr>)"
    by (rule arg_cong)
  then show "d1 = d2"
    by simp
qed

theorem rename_columns_swaps_data_witness:
  "columns_to_rename loaded = (''Annual_yield'', ''Crop_type'') # [(''Crop_type'', ''Annual_yield'')]
   \<and> df loaded = Some survey
   \<and> ''Annual_yield'' \<in> set (columns survey) \<and> ''Crop_type'' \<in> set (columns survey)
   \<and> rename_columns loaded = (None, loaded\<lparr>df := Some renamed_survey\<rparr>)
   \<and> cells_under ''Annual_yield'' renamed_survey = cells_under ''Crop_type'' survey
   \<and> cells_under ''Crop_type'' renamed_survey = cells_under ''Annual_yield'' survey
   \<and> cells_under ''Annual_yield'' survey = [[Str ''cassaval''], [Str ''tea''], [Str ''wheatn'']]
   \<and> rows renamed_survey = rows survey"
proof -
  have m: "''Annual_yield'' \<in> set (columns survey)" "''Crop_type'' \<in> set (columns survey)"
    by (simp_all add: survey_def)
  have u: "cells_under ''Annual_yield'' survey = [[Str ''cassaval''], [Str ''tea''], [Str ''wheatn'']]"
    by (simp add: survey_def cells_under_def)
  obtain d' where r: "rename_columns loaded = (None, loaded\<lparr>df := Some d'\<rparr>)"
    and p: "cells_under ''Annual_yield'' d' = cells_under ''Crop_type'' survey"
      "cells_under ''Crop_type'' d' = cells_under ''Annual_yield'' survey"
      "rows d' = rows survey"
    using rename_columns_swaps_data [OF loaded_fields(1,2) m] by blast
  from r rename_example have "loaded\<lparr>df := Some d'\<rparr> = loaded\<lparr>df := Some renamed_survey\<rparr>"
    by simp
  then have "d' = renamed_survey"
    by (rule df_update_inject)
  with p show ?thesis
    by (simp only: loaded_fields(1,2) m u rename_example simp_thms)
qed

theorem rename_columns_involution_witness:
  "columns_to_rename loaded = (''Annual_yield'', ''Crop_type'') # [(''Crop_type'', ''Annual_yield'')]
   \<and> df loaded = Some survey
   \<and> ''Annual_yield'' \<in> set (columns survey) \<and> ''Crop_type'' \<in> set (columns survey)
   \<and> rename_columns loaded = (None, loaded\<lparr>df := Some renamed_survey\<rparr>)
   \<and> rename_columns (loaded\<lparr>df := Some renamed_survey\<rparr>) = (None, loaded)"
proof -
  have m: "''Annual_yield'' \<in> set (columns survey)" "''Crop_type'' \<in> set (columns survey)"
    by (simp_all add: survey_def)
  from rename_columns_involution [OF loaded_fields(1,2) m] rename_example loaded_fields(1,2) m
  show ?thesis
    by (simp add: and_then_def)
qed

theorem rename_columns_missing_column_counterexample:
  "columns_to_rename (init config_params) = [(''Annual_yield'', ''Crop_type''), (''Crop_type'', ''Annual_yield'')]
   \<and> ''Annual_yield'' \<notin> set [''Field_ID'', ''Crop_type'']
   \<and> rename_columns ((init config_params)
         \<lparr>df := Some \<lparr>columns = [''Field_ID'', ''Crop_type''], rows = [[IntV 1, Str ''tea'']]\<rparr>\<rparr>)
       = (None, (init config_params)
         \<lparr>df := Some \<lparr>columns = [''Field_ID'', ''Annual_yield''], rows = [[IntV 1, Str ''tea'']]\<rparr>\<rparr>)"
  by (simp add: rename_columns_def df_rename_def temp_name_loop.simps init_def config_params_def)

theorem rename_columns_missing_column_witness:
  "columns_to_rename (loaded\<lparr>df := Some station_map\<rparr>)
       = (''Annual_yield'', ''Crop_type'') # [(''Crop_type'', ''Annual_yield'')]
   \<and> df (loaded\<lparr>df := Some station_map\<rparr>) = Some station_map
   \<and> ''Annual_yield'' \<notin> set (columns station_map)
   \<and> ''Crop_type'' \<notin> set (columns station_map)
   \<and> rename_columns (loaded\<lparr>df := Some station_map\<rparr>) = (None, loaded\<lparr>df := Some station_map\<rparr>)"
proof -
  have c: "columns_to_rename (loaded\<lparr>df := Some station_map\<rparr>)
       = (''Annual_yield'', ''Crop_type'') # [(''Crop_type'', ''Annual_yield'')]"
    and d: "df (loaded\<lparr>df := Some station_map\<rparr>) = Some station_map"
    by (simp_all add: loaded_fields)
  have m: "''Annual_yield'' \<notin> set (columns station_map)" "''Crop_type'' \<notin> set (columns station_map)"
    by (simp_all add: station_map_def)
  then have "''Annual_yield'' \<notin> set (columns station_map) \<or> ''Crop_type'' \<notin> set (columns station_map)"
    by simp
  then obtain d' where r: "rename_columns (loaded\<lparr>df := Some station_map\<rparr>)
        = (None, loaded\<lparr>df := Some station_map, df := Some d'\<rparr>)"
    and p: "''Annual_yield'' \<notin> set (columns station_map) \<and> ''Crop_type'' \<notin> set (columns station_map)
        \<longrightarrow> d' = station_map"
    using rename_columns_missing_column [OF c d] by blast
  from p m have "d' = station_map"
    by simp
  with r c d m show ?thesis
    by simp
qed

theorem apply_corrections_sign_counterexample:
  "apply_corrections ''Crop_type'' ''Elevation'' ((init config_params)
       \<lparr>df := Some \<lparr>columns = [''Crop_type'', ''Elevation''],
                     rows = [[Str ''tea'', FloatV (- 5)], [Str ''tea'', NaN]]\<rparr>\<rparr>)
     = (None, (init config_params)
       \<lparr>df := Some \<lparr>columns = [''Crop_type'', ''Elevation''],
                     rows = [[Str ''tea'', FloatV 5], [Str ''tea'', NaN]]\<rparr>\<rparr>)
   \<and> \<not> list_all (list_all cell_nonneg)
         (cells_under ''Elevation'' \<lparr>columns = [''Crop_type'', ''Elevation''],
                     rows = [[Str ''tea'', FloatV 5], [Str ''tea'', NaN]]\<rparr>)
   \<and> apply_corrections ''Crop_type'' ''Elevation'' ((init config_params)
       \<lparr>df := Some \<lparr>columns = [''Crop_type'', ''Elevation''],
                     rows = [[Str ''tea'', IntV (- 9223372036854775808)]]\<rparr>\<rparr>)
     = (None, (init config_params)
       \<lparr>df := Some \<lparr>columns = [''Crop_type'', ''Elevation''],
                     rows = [[Str ''tea'', IntV (- 9223372036854775808)]]\<rparr>\<rparr>)
   \<and> \<not> list_all (list_all cell_nonneg)
         (cells_under ''Elevation'' \<lparr>columns = [''Crop_type'', ''Elevation''],
                     rows = [[Str ''tea'', IntV (- 9223372036854775808)]]\<rparr>)"
  by (simp add: apply_corrections_def cells_under_def map_column_def init_def config_params_def
      int64_abs_def)

theorem apply_corrections_sign_witness:
  "df (loaded\<lparr>df := Some renamed_survey\<rparr>) = Some renamed_survey
   \<and> ''Elevation'' \<in> set (columns renamed_survey)
   \<and> list_all (list_all is_numeric) (cells_under ''Elevation'' renamed_survey)
   \<and> cells_under ''Elevation'' renamed_survey = [[FloatV (- 5)], [FloatV 3], [NaN]]
   \<and> df (snd (apply_corrections ''Crop_type'' ''Elevation'' (loaded\<lparr>df := Some renamed_survey\<rparr>)))
        = Some corrected_survey
   \<and> cells_under ''Elevation'' corrected_survey = [[FloatV 5], [FloatV 3], [NaN]]"
proof -
  have d: "df (loaded\<lparr>df := Some renamed_survey\<rparr>) = Some renamed_survey"
    by simp
  have a: "''Elevation'' \<in> set (columns renamed_survey)"
    by (simp add: renamed_survey_def)
  have u: "cells_under ''Elevation'' renamed_survey = [[FloatV (- 5)], [FloatV 3], [NaN]]"
    by (simp add: renamed_survey_def cells_under_def)
  have n: "list_all (list_all is_numeric) (cells_under ''Elevation'' renamed_survey)"
    by (simp add: u)
  obtain d' where r: "df (snd (apply_corrections ''Crop_type'' ''Elevation''
        (loaded\<lparr>df := Some renamed_survey\<rparr>))) = Some d'"
    and p: "list_all2 (list_all2 sign_corrected) (cells_under ''Elevation'' renamed_survey)
        (cells_under ''Elevation'' d')"
    using apply_corrections_sign [OF d a n] by blast
  from r have e: "d' = corrected_survey"
    by (simp add: corrections_example)
  from p have "list_all2 (list_all2 sign_corrected) [[FloatV (- 5)], [FloatV 3], [NaN]]
      (cells_under ''Elevation'' corrected_survey)"
    by (simp only: u e)
  moreover have "cells_under ''Elevation'' corrected_survey = [[FloatV 5], [FloatV 3], [NaN]]"
    by (simp add: corrected_survey_def cells_under_def)
  ultimately show ?thesis
    using d a n u r e by simp
qed

theorem apply_corrections_values_counterexample:
  "apply_corrections ''Crop_type'' ''Elevation'' ((init config_params)
       \<lparr>df := Some \<lparr>columns = [''Crop_type'', ''Elevation''],
                     rows = [[Str ''cassaval'', FloatV (- 5)]]\<rparr>\<rparr>)
     = (None, (init config_params)
       \<lparr>df := Some \<lparr>columns = [''Crop_type'', ''Elevation''],
                     rows = [[Str ''cassava'', FloatV 5]]\<rparr>\<rparr>)
   \<and> ''Elevation'' \<noteq> ''Crop_type''
   \<and> cells_under ''Elevation'' \<lparr>columns = [''Crop_type'', ''Elevation''],
                     rows = [[Str ''cassaval'', FloatV (- 5)]]\<rparr> = [[FloatV (- 5)]]
   \<and> cells_under ''Elevation'' \<lparr>columns = [''Crop_type'', ''Elevation''],
                     rows = [[Str ''cassava'', FloatV 5]]\<rparr> = [[FloatV 5]]
   \<and> FloatV 5 \<noteq> FloatV (- 5)"
  by (simp add: apply_corrections_def cells_under_def map_column_def init_def config_params_def)

theorem apply_corrections_values_witness:
  "df (loaded\<lparr>df := Some renamed_survey\<rparr>) = Some renamed_survey
   \<and> ''Elevation'' \<in> set (columns renamed_survey)
   \<and> list_all (list_all is_numeric) (cells_under ''Elevation'' renamed_survey)
   \<and> count_list (columns renamed_survey) ''Crop_type'' = 1
   \<and> ''Crop_type'' \<noteq> ''Elevation''
   \<and> apply_corrections ''Crop_type'' ''Elevation'' (loaded\<lparr>df := Some renamed_survey\<rparr>)
        = (None, loaded\<lparr>df := Some corrected_survey\<rparr>)
   \<and> cells_under ''Crop_type'' renamed_survey = [[Str ''cassaval''], [Str ''tea''], [Str ''wheatn'']]
   \<and> cells_under ''Crop_type'' corrected_survey = [[Str ''cassava''], [Str ''tea''], [Str ''wheat'']]
   \<and> cells_under ''Annual_yield'' corrected_survey = cells_under ''Annual_yield'' renamed_survey
   \<and> columns corrected_survey = columns renamed_survey"
proof -
  have d: "df (loaded\<lparr>df := Some renamed_survey\<rparr>) = Some renamed_survey"
    by simp
  have a: "''Elevation'' \<in> set (columns renamed_survey)"
    and c: "count_list (columns renamed_survey) ''Crop_type'' = 1"
    by (simp_all add: renamed_survey_def)
  have n: "list_all (list_all is_numeric) (cells_under ''Elevation'' renamed_survey)"
    by (simp add: renamed_survey_def cells_under_def)
  have ne: "''Crop_type'' \<noteq> ''Elevation''"
    by simp
  have u: "cells_under ''Crop_type'' renamed_survey = [[Str ''cassaval''], [Str ''tea''], [Str ''wheatn'']]"
    by (simp add: renamed_survey_def cells_under_def)
  obtain d' where r: "apply_corrections ''Crop_type'' ''Elevation'' (loaded\<lparr>df := Some renamed_survey\<rparr>)
        = (None, loaded\<lparr>df := Some renamed_survey, df := Some d'\<rparr>)"
    and p: "cells_under ''Crop_type'' d'
        = map (map (get_or_self (values_to_rename (loaded\<lparr>df := Some renamed_survey\<rparr>))))
            (cells_under ''Crop_type'' renamed_survey)"
      "\<forall>x. x \<noteq> ''Crop_type'' \<and> x \<noteq> ''Elevation''
           \<longrightarrow> cells_under x d' = cells_under x renamed_survey"
      "columns d' = columns renamed_survey"
    using apply_corrections_values [OF d a n c ne] by blast
  from r have "loaded\<lparr>df := Some d'\<rparr> = loaded\<lparr>df := Some corrected_survey\<rparr>"
    by (simp add: corrections_example)
  then have e: "d' = corrected_survey"
    by (rule df_update_inject)
  from p(1) have "cells_under ''Crop_type'' corrected_survey
      = [[Str ''cassava''], [Str ''tea''], [Str ''wheat'']]"
    by (simp add: e u loaded_fields)
  moreover from p(2) have "cells_under ''Annual_yield'' corrected_survey
      = cells_under ''Annual_yield'' renamed_survey"
    by (simp add: e)
  moreover from p(3) have "columns corrected_survey = columns renamed_survey"
    by (simp only: e)
  ultimately show ?thesis
    using d a n c u corrections_example by simp
qed

theorem apply_corrections_idempotent_witness:
  "ran (values_to_rename (loaded\<lparr>df := Some renamed_survey\<rparr>))
      \<inter> dom (values_to_rename (loaded\<lparr>df := Some renamed_survey\<rparr>)) = {}
   \<and> apply_corrections ''Crop_type'' ''Elevation'' (loaded\<lparr>df := Some renamed_survey\<rparr>)
        = (None, loaded\<lparr>df := Some corrected_survey\<rparr>)
   \<and> apply_corrections ''Crop_type'' ''Elevation'' (loaded\<lparr>df := Some corrected_survey\<rparr>)
        = (None, loaded\<lparr>df := Some corrected_survey\<rparr>)"
proof -
  have h: "ran (values_to_rename (loaded\<lparr>df := Some renamed_survey\<rparr>))
      \<inter> dom (values_to_rename (loaded\<lparr>df := Some renamed_survey\<rparr>)) = {}"
    by (auto simp: loaded_fields ran_def split: if_splits)
  from apply_corrections_idempotent [OF h, of "''Crop_type''" "''Elevation''"] h
  show ?thesis
    by (simp add: and_then_def corrections_example)
qed

lemma process_example: "process served (init config_params) = (None, loaded\<lparr>df := Some joined_survey\<rparr>)"
  by (simp add: process_def and_then_def ingest_example rename_example corrections_example
      mapping_example)


theorem weather_station_mapping_empty_body_witness:
  "url_body (served\<lparr>url_body := \<lambda>u. Inr []\<rparr>)
       (weather_map_data (loaded\<lparr>df := Some corrected_survey\<rparr>)) = Inr []
   \<and> weather_station_mapping (served\<lparr>url_body := \<lambda>u. Inr []\<rparr>) (loaded\<lparr>df := Some corrected_survey\<rparr>)
        = (Some EmptyDataError, loaded\<lparr>df := Some corrected_survey\<rparr>)
   \<and> process (served\<lparr>url_body := \<lambda>u. Inr []\<rparr>) (init config_params)
        = (Some EmptyDataError, loaded\<lparr>df := Some corrected_survey\<rparr>)"
proof -
  let ?w = "served\<lparr>url_body := \<lambda>u. Inr []\<rparr>"
  let ?s = "loaded\<lparr>df := Some corrected_survey\<rparr>"
  have b: "url_body ?w (weather_map_data ?s) = Inr []"
    by simp
  have "ingest_sql_data ?w (init config_params) = (None, loaded)"
    by (simp add: ingest_sql_data_def create_db_engine_def query_data_def df_empty_def example_defs)
  then have three: "and_then (ingest_sql_data ?w)
      (and_then rename_columns (apply_corrections ''Crop_type'' ''Elevation'')) (init config_params)
      = (None, ?s)"
    by (simp add: and_then_def rename_example corrections_example)
  from weather_station_mapping_empty_body [OF b] three b show ?thesis
    by simp
qed

theorem process_empty_query_result_witness:
  "create_engine (served\<lparr>read_sql_query := \<lambda>p q. Inr \<lparr>columns = [''Field_ID''], rows = []\<rparr>\<rparr>)
       (db_path (init config_params)) = None
   \<and> read_sql_query (served\<lparr>read_sql_query := \<lambda>p q. Inr \<lparr>columns = [''Field_ID''], rows = []\<rparr>\<rparr>)
       (db_path (init config_params)) (sql_query (init config_params))
        = Inr \<lparr>columns = [''Field_ID''], rows = []\<rparr>
   \<and> rows \<lparr>columns = [''Field_ID''], rows = []\<rparr> = []
   \<and> df (init config_params) = None
   \<and> process (served\<lparr>read_sql_query := \<lambda>p q. Inr \<lparr>columns = [''Field_ID''], rows = []\<rparr>\<rparr>)
        (init config_params)
        = (Some (ValueError ''The query returned an empty DataFrame.''),
           (init config_params)\<lparr>engine := Some ''sqlite:///Maji_Ndogo_farm_survey_small.db''\<rparr>)
   \<and> df (snd (process (served\<lparr>read_sql_query := \<lambda>p q. Inr \<lparr>columns = [''Field_ID''], rows = []\<rparr>\<rparr>)
        (init config_params))) = None"
proof -
  let ?w = "served\<lparr>read_sql_query := \<lambda>p q. Inr \<lparr>columns = [''Field_ID''], rows = []\<rparr>\<rparr>"
  let ?e = "\<lparr>columns = [''Field_ID''], rows = []\<rparr> :: dataframe"
  have c: "create_engine ?w (db_path (init config_params)) = None"
    by (simp add: served_def)
  have q: "read_sql_query ?w (db_path (init config_params)) (sql_query (init config_params)) = Inr ?e"
    by simp
  have z: "rows ?e = []"
    by simp
  have n: "df (init config_params) = None"
    and p: "db_path (init config_params) = ''sqlite:///Maji_Ndogo_farm_survey_small.db''"
    by (simp_all add: init_def config_params_def)
  from process_empty_query_result [OF c q z] c q n p show ?thesis
    by simp
qed

theorem process_corrections_fixed_columns_witness:
  "and_then (ingest_sql_data served) rename_columns (init config_params)
      = (None, loaded\<lparr>df := Some renamed_survey\<rparr>)
   \<and> process served (init config_params)
      = and_then (apply_corrections ''Crop_type'' ''Elevation'') (weather_station_mapping served)
          (loaded\<lparr>df := Some renamed_survey\<rparr>)
   \<and> process served (init config_params) = (None, loaded\<lparr>df := Some joined_survey\<rparr>)
   \<and> cells_under ''Crop_type'' joined_survey = [[Str ''cassava''], [Str ''tea''], [Str ''wheat'']]
   \<and> cells_under ''Elevation'' joined_survey = [[FloatV 5], [FloatV 3], [NaN]]"
proof -
  have h: "and_then (ingest_sql_data served) rename_columns (init config_params)
      = (None, loaded\<lparr>df := Some renamed_survey\<rparr>)"
    by (simp add: and_then_def ingest_example rename_example)
  have "cells_under ''Crop_type'' joined_survey = [[Str ''cassava''], [Str ''tea''], [Str ''wheat'']]"
    "cells_under ''Elevation'' joined_survey = [[FloatV 5], [FloatV 3], [NaN]]"
    by (simp_all add: joined_survey_def cells_under_def)
  with process_corrections_fixed_columns [OF h] h process_example show ?thesis
    by simp
qed

end
